theory Spec2Isabelle
  imports Main "HOL-Library.AList" "HOL-Library.Word"
begin

section \<open>The SBF reader and writer of tools/cc.py\<close>

text \<open>
  The embedding follows the functions of the section \<^verbatim>\<open>SBF READ/WRITE\<close> of
  \<^verbatim>\<open>src/tools/cc.py\<close>: \<^verbatim>\<open>is_int\<close>, \<^verbatim>\<open>get_name_index_dict\<close>, \<^verbatim>\<open>remove_sf\<close>,
  \<^verbatim>\<open>add_sf\<close>, \<^verbatim>\<open>rename_sf\<close>, \<^verbatim>\<open>shift_array\<close>, \<^verbatim>\<open>read_sbf_header\<close>, \<^verbatim>\<open>read_sbf\<close>
  and \<^verbatim>\<open>write_sbf\<close>.

  Library calls are modelled by what they return:
  \<^item> a \<^verbatim>\<open>ConfigParser\<close> with \<^verbatim>\<open>optionxform = str\<close> is the ordered list of its sections,
    each the ordered list of its options (keys are case sensitive, a key that is set
    again keeps its place, a new key goes last). The text of the header file is not
    parsed here: \<^verbatim>\<open>read_file\<close> and \<^verbatim>\<open>write\<close> are taken to be inverse to each other, the
    default section is empty and no value holds the interpolation character \<^verbatim>\<open>%\<close>;
  \<^item> a raised exception is the left summand of a result, named after the Python
    exception;
  \<^item> a double is its 64 bits and a single its 32 bits. What the floating-point unit
    computes from them (addition, subtraction, mean, the two conversions) is a
    parameter of the model, a record of functions that is never interpreted;
  \<^item> Python's \<^verbatim>\<open>eval\<close> is a parameter too: a function from the evaluated text to the
    row of doubles \<^verbatim>\<open>np.array(eval(text)).reshape(1, -1)\<close>, or to the exception raised
    on the way.
\<close>

subsection \<open>Exceptions\<close>

datatype error =
    KeyError | ValueError | IndexError | StructError | AttributeError
  | OverflowError | NameError | SyntaxError | TypeError

subsection \<open>Strings and integers\<close>

definition digit_char :: "nat \<Rightarrow> char" where
  "digit_char d = ''0123456789'' ! d"

text \<open>\<^verbatim>\<open>str(n)\<close> for a Python int.\<close>

fun str_nat :: "nat \<Rightarrow> string" where
  "str_nat n = (if n < 10 then [digit_char n] else str_nat (n div 10) @ [digit_char (n mod 10)])"

declare str_nat.simps [simp del]

definition str_int :: "int \<Rightarrow> string" where
  "str_int i = (if i < 0 then CHR ''-'' # str_nat (nat (- i)) else str_nat (nat i))"

definition is_digit :: "char \<Rightarrow> bool" where
  "is_digit c = (c \<in> set ''0123456789'')"

definition digit_val :: "char \<Rightarrow> nat" where
  "digit_val c = of_char c - 48"

definition is_space :: "char \<Rightarrow> bool" where
  "is_space c = (c \<in> set [CHR '' '', CHR 0x09, CHR 0x0A, CHR 0x0B, CHR 0x0C, CHR 0x0D,
                            CHR 0x1C, CHR 0x1D, CHR 0x1E, CHR 0x1F])"

definition strip :: "string \<Rightarrow> string" where
  "strip s = rev (dropWhile is_space (rev (dropWhile is_space s)))"

text \<open>The digits of an integer literal: digits, with single underscores between them.\<close>

fun int_digits :: "string \<Rightarrow> bool" where
  "int_digits [] = False"
| "int_digits [c] = is_digit c"
| "int_digits (c # d # cs) =
     (is_digit c \<and> (if d = CHR ''_'' then int_digits cs else int_digits (d # cs)))"

definition digits_value :: "string \<Rightarrow> nat" where
  "digits_value s = foldl (\<lambda>a c. 10 * a + digit_val c) 0 (filter is_digit s)"

text \<open>\<^verbatim>\<open>int(s)\<close>: \<^verbatim>\<open>None\<close> stands for the \<^verbatim>\<open>ValueError\<close>.\<close>

definition py_int :: "string \<Rightarrow> int option" where
  "py_int s =
     (let t = strip s;
          neg = (t \<noteq> [] \<and> hd t = CHR ''-'');
          body = (if t \<noteq> [] \<and> (hd t = CHR ''-'' \<or> hd t = CHR ''+'') then tl t else t)
      in if int_digits body
         then Some (if neg then - int (digits_value body) else int (digits_value body))
         else None)"

text \<open>
  \<^verbatim>\<open>def is_int(str_): try: int(str_); return True; except ValueError: return False\<close>
\<close>

definition is_int :: "string \<Rightarrow> bool" where
  "is_int s = (py_int s \<noteq> None)"

text \<open>\<^verbatim>\<open>name.split('SF')\<close>: the pieces between the occurrences of \<^verbatim>\<open>SF\<close>, left to right.\<close>

fun split_SF :: "string \<Rightarrow> string list" where
  "split_SF (c # d # cs) =
     (if c = CHR ''S'' \<and> d = CHR ''F'' then [] # split_SF cs
      else (case split_SF (d # cs) of p # ps \<Rightarrow> (c # p) # ps | [] \<Rightarrow> [[c]]))"
| "split_SF [c] = [[c]]"
| "split_SF [] = [[]]"

text \<open>The f-string \<^verbatim>\<open>f'SF{idx}'\<close>.\<close>

definition SF_key :: "int \<Rightarrow> string" where
  "SF_key idx = ''SF'' @ str_int idx"

subsection \<open>The header: a ConfigParser\<close>

type_synonym options = "(string \<times> string) list"
type_synonym config = "(string \<times> options) list"

text \<open>\<^verbatim>\<open>d[k]\<close> on a dictionary.\<close>

definition dict_get :: "('k \<times> 'v) list \<Rightarrow> 'k \<Rightarrow> error + 'v" where
  "dict_get d k = (case map_of d k of None \<Rightarrow> Inl KeyError | Some v \<Rightarrow> Inr v)"

text \<open>\<^verbatim>\<open>config[sec][key]\<close>.\<close>

definition get_option :: "config \<Rightarrow> string \<Rightarrow> string \<Rightarrow> error + string" where
  "get_option config sec key =
     (case dict_get config sec of Inl e \<Rightarrow> Inl e | Inr s \<Rightarrow> dict_get s key)"

text \<open>\<^verbatim>\<open>config[sec][key] = value\<close>.\<close>

definition set_option :: "config \<Rightarrow> string \<Rightarrow> string \<Rightarrow> string \<Rightarrow> error + config" where
  "set_option config sec key val =
     (case dict_get config sec of
        Inl e \<Rightarrow> Inl e
      | Inr s \<Rightarrow> Inr (AList.update sec (AList.update key val s) config))"

text \<open>\<^verbatim>\<open>int(config[sec][key])\<close>.\<close>

definition int_option :: "config \<Rightarrow> string \<Rightarrow> string \<Rightarrow> error + int" where
  "int_option config sec key =
     (case get_option config sec key of
        Inl e \<Rightarrow> Inl e
      | Inr v \<Rightarrow> (case py_int v of None \<Rightarrow> Inl ValueError | Some i \<Rightarrow> Inr i))"

subsection \<open>Arrays\<close>

text \<open>A two-dimensional array of shape \<open>(length (rws a), n_cols a)\<close>, row by row.\<close>

record 'a matrix =
  n_cols :: nat
  rws :: "'a list list"

definition n_rows :: "'a matrix \<Rightarrow> nat" where
  "n_rows a = length (rws a)"

definition delete_nth :: "nat \<Rightarrow> 'a list \<Rightarrow> 'a list" where
  "delete_nth j xs = take j xs @ drop (Suc j) xs"

text \<open>
  \<^verbatim>\<open>np.delete(sf, index, axis=1)\<close> for an integer index: a negative index counts from the
  end, an index out of range raises.
\<close>

definition np_delete_col :: "'a matrix \<Rightarrow> int \<Rightarrow> error + 'a matrix" where
  "np_delete_col sf index =
     (let n = int (n_cols sf); j = (if index < 0 then index + n else index)
      in if 0 \<le> j \<and> j < n
         then Inr \<lparr>n_cols = n_cols sf - 1, rws = map (delete_nth (nat j)) (rws sf)\<rparr>
         else Inl IndexError)"


subsection \<open>Scalar fields: the index of a name, remove, add, rename\<close>

text \<open>
  The index a key of the section stands for, when it is counted by the comprehension of
  \<^verbatim>\<open>get_name_index_dict\<close>:
  \<^verbatim>\<open>int(name.split('SF')[1]) - 1 ... if len(name.split('SF')) == 2 and is_int(name.split('SF')[1])\<close>
\<close>

definition sf_index_of_key :: "string \<Rightarrow> int option" where
  "sf_index_of_key name =
     (let parts = split_SF name
      in if length parts = 2 \<and> is_int (parts ! 1)
         then map_option (\<lambda>i. i - 1) (py_int (parts ! 1)) else None)"

text \<open>
  \<^verbatim>\<open>
  def get_name_index_dict(config):
      dict_ = {config['SBF'][name]: int(name.split('SF')[1]) - 1
               for name in config['SBF'] if len(name.split('SF')) == 2 and is_int(name.split('SF')[1])}
      return dict_
  \<close>
  A name that two keys hold gets the index of the later key.
\<close>

definition name_index_step :: "string \<times> string \<Rightarrow> (string \<times> int) list \<Rightarrow> (string \<times> int) list" where
  "name_index_step kv d =
     (case sf_index_of_key (fst kv) of None \<Rightarrow> d | Some i \<Rightarrow> AList.update (snd kv) i d)"

definition get_name_index_dict :: "config \<Rightarrow> error + (string \<times> int) list" where
  "get_name_index_dict config =
     (case dict_get config ''SBF'' of
        Inl e \<Rightarrow> Inl e
      | Inr sec \<Rightarrow> Inr (fold name_index_step sec []))"

text \<open>
  One loop of \<^verbatim>\<open>remove_sf\<close>:
  \<^verbatim>\<open>for idx in idxs: new_config['SBF'][f'SF{idx}'] = config['SBF'][f'SF{idx + off}']\<close>
\<close>

fun copy_SF :: "int \<Rightarrow> options \<Rightarrow> int list \<Rightarrow> options \<Rightarrow> error + options" where
  "copy_SF off src [] new = Inr new"
| "copy_SF off src (idx # idxs) new =
     (case dict_get src (SF_key (idx + off)) of
        Inl e \<Rightarrow> Inl e
      | Inr v \<Rightarrow> copy_SF off src idxs (AList.update (SF_key idx) v new))"

text \<open>
  \<^verbatim>\<open>
  def remove_sf(name, sf, config):
      name_index = get_name_index_dict(config)
      index = name_index[name]
      new_sf = np.delete(sf, index, axis=1)
      new_config = configparser.ConfigParser()
      new_config.optionxform = str
      new_config.read_dict(config)
      sf_index = index + 1
      sf_count = int(config['SBF']['SFCount'])
      new_config['SBF']['SFCount'] = str(sf_count - 1)
      new_config.remove_option('SBF', f'SF{sf_count}')
      for idx in range(1, sf_index):
          new_config['SBF'][f'SF{idx}'] = config['SBF'][f'SF{idx}']
      for idx in range(sf_index, sf_count):
          new_config['SBF'][f'SF{idx}'] = config['SBF'][f'SF{idx + 1}']
      return new_sf, new_config
  \<close>
  \<^verbatim>\<open>config\<close> itself is not changed: the function works on a copy.
\<close>

definition remove_sf :: "string \<Rightarrow> 'a matrix \<Rightarrow> config \<Rightarrow> error + ('a matrix \<times> config)" where
  "remove_sf name sf config =
     (case get_name_index_dict config of Inl e \<Rightarrow> Inl e | Inr name_index \<Rightarrow>
      case dict_get name_index name of Inl e \<Rightarrow> Inl e | Inr index \<Rightarrow>
      case np_delete_col sf index of Inl e \<Rightarrow> Inl e | Inr new_sf \<Rightarrow>
      case int_option config ''SBF'' ''SFCount'' of Inl e \<Rightarrow> Inl e | Inr sf_count \<Rightarrow>
      case dict_get config ''SBF'' of Inl e \<Rightarrow> Inl e | Inr sec \<Rightarrow>
      let sf_index = index + 1;
          new1 = AList.update ''SFCount'' (str_int (sf_count - 1)) sec;
          new2 = AList.delete (SF_key sf_count) new1
      in case copy_SF 0 sec [1 .. sf_index - 1] new2 of Inl e \<Rightarrow> Inl e | Inr new3 \<Rightarrow>
         case copy_SF 1 sec [sf_index .. sf_count - 1] new3 of Inl e \<Rightarrow> Inl e | Inr new4 \<Rightarrow>
         Inr (new_sf, AList.update ''SBF'' new4 config))"


text \<open>
  \<^verbatim>\<open>
  def rename_sf(name, new_name, config):
      name_index = get_name_index_dict(config)
      index = name_index[name]
      config['SBF'][f'SF{index + 1}'] = new_name
  \<close>
  The result is the changed \<^verbatim>\<open>config\<close>; an exception leaves it as it was.
\<close>

definition rename_sf :: "string \<Rightarrow> string \<Rightarrow> config \<Rightarrow> error + config" where
  "rename_sf name new_name config =
     (case get_name_index_dict config of Inl e \<Rightarrow> Inl e | Inr name_index \<Rightarrow>
      case dict_get name_index name of Inl e \<Rightarrow> Inl e | Inr index \<Rightarrow>
      set_option config ''SBF'' (SF_key (index + 1)) new_name)"

text \<open>
  The names of the scalar fields in the order of the header, and the keys that name them
  written as \<^verbatim>\<open>SF1\<close>, \<^verbatim>\<open>SF2\<close>, ... and not as \<^verbatim>\<open>SF01\<close> or \<^verbatim>\<open>xSF1\<close>, which the
  comprehension of \<^verbatim>\<open>get_name_index_dict\<close> counts as well.
\<close>

definition sf_names :: "options \<Rightarrow> string list" where
  "sf_names sec = map snd (filter (\<lambda>kv. sf_index_of_key (fst kv) \<noteq> None) sec)"

definition sf_keys_canonical :: "options \<Rightarrow> bool" where
  "sf_keys_canonical sec =
     list_all (\<lambda>kv. case sf_index_of_key (fst kv) of
                      None \<Rightarrow> True | Some i \<Rightarrow> fst kv = SF_key (i + 1)) sec"

subsection \<open>Bytes and floating-point numbers\<close>

type_synonym byte = "8 word"
type_synonym f64 = "64 word"
type_synonym f32 = "32 word"

text \<open>
  The floating-point operations the code applies: \<^verbatim>\<open>+\<close> and \<^verbatim>\<open>-\<close> on doubles,
  \<^verbatim>\<open>np.mean\<close> of a column, \<^verbatim>\<open>astype(float)\<close> on singles, \<^verbatim>\<open>astype('>f')\<close> on doubles and
  on the integers of \<^verbatim>\<open>np.arange\<close>.
\<close>

record fpu =
  fadd :: "f64 \<Rightarrow> f64 \<Rightarrow> f64"
  fsub :: "f64 \<Rightarrow> f64 \<Rightarrow> f64"
  fmean :: "f64 list \<Rightarrow> f64"
  widen :: "f32 \<Rightarrow> f64"
  narrow :: "f64 \<Rightarrow> f32"
  of_index :: "nat \<Rightarrow> f32"

type_synonym evaluator = "string \<Rightarrow> error + f64 list"

definition be_nat :: "byte list \<Rightarrow> nat" where
  "be_nat bs = foldl (\<lambda>a b. a * 256 + unat b) 0 bs"

definition be_bytes :: "nat \<Rightarrow> nat \<Rightarrow> byte list" where
  "be_bytes n v = map (\<lambda>i. word_of_nat (v div 256 ^ (n - 1 - i))) [0..<n]"

text \<open>\<^verbatim>\<open>xs[i:j]\<close> for \<open>0 \<le> i \<le> j\<close>.\<close>

definition slice :: "nat \<Rightarrow> nat \<Rightarrow> 'a list \<Rightarrow> 'a list" where
  "slice i j xs = take (j - i) (drop i xs)"

text \<open>\<^verbatim>\<open>struct.unpack('>Q', b)[0]\<close>, \<^verbatim>\<open>struct.unpack('>H', b)[0]\<close>, \<^verbatim>\<open>struct.unpack('>d', b)[0]\<close>.\<close>

definition unpack_Q :: "byte list \<Rightarrow> error + nat" where
  "unpack_Q b = (if length b = 8 then Inr (be_nat b) else Inl StructError)"

definition unpack_H :: "byte list \<Rightarrow> error + nat" where
  "unpack_H b = (if length b = 2 then Inr (be_nat b) else Inl StructError)"

definition unpack_d :: "byte list \<Rightarrow> error + f64" where
  "unpack_d b = (if length b = 8 then Inr (word_of_nat (be_nat b)) else Inl StructError)"

text \<open>\<^verbatim>\<open>struct.pack('>Q', n)\<close>, \<^verbatim>\<open>struct.pack('>H', n)\<close>, \<^verbatim>\<open>struct.pack('>d', x)\<close>.\<close>

definition pack_Q :: "nat \<Rightarrow> error + byte list" where
  "pack_Q n = (if n < 2 ^ 64 then Inr (be_bytes 8 n) else Inl StructError)"

definition pack_H :: "nat \<Rightarrow> error + byte list" where
  "pack_H n = (if n < 2 ^ 16 then Inr (be_bytes 2 n) else Inl StructError)"

definition pack_d :: "f64 \<Rightarrow> byte list" where
  "pack_d x = be_bytes 8 (unat x)"

definition pack_f :: "f32 \<Rightarrow> byte list" where
  "pack_f x = be_bytes 4 (unat x)"

text \<open>
  \<^verbatim>\<open>np.fromfile(f, dtype='>f')\<close>: the rest of the file as big-endian singles; bytes left
  over at the end are not read.
\<close>

fun fromfile_f :: "byte list \<Rightarrow> f32 list" where
  "fromfile_f (a # b # c # d # rest) = word_of_nat (be_nat [a, b, c, d]) # fromfile_f rest"
| "fromfile_f _ = []"

text \<open>
  \<^verbatim>\<open>.reshape(n, w)\<close> of a one-dimensional array. A dimension that does not fit a signed
  64-bit index raises too.
\<close>

definition reshape :: "nat \<Rightarrow> nat \<Rightarrow> 'a list \<Rightarrow> error + 'a matrix" where
  "reshape n w xs =
     (if 2 ^ 63 \<le> n then Inl OverflowError
      else if length xs \<noteq> n * w then Inl ValueError
      else Inr \<lparr>n_cols = w, rws = map (\<lambda>i. take w (drop (i * w) xs)) [0..<n]\<rparr>)"

text \<open>\<^verbatim>\<open>array[:, :k]\<close> and \<^verbatim>\<open>array[:, k:]\<close>.\<close>

definition cols_to :: "nat \<Rightarrow> 'a matrix \<Rightarrow> 'a matrix" where
  "cols_to k a = \<lparr>n_cols = min k (n_cols a), rws = map (take k) (rws a)\<rparr>"

definition cols_from :: "nat \<Rightarrow> 'a matrix \<Rightarrow> 'a matrix" where
  "cols_from k a = \<lparr>n_cols = n_cols a - k, rws = map (drop k) (rws a)\<rparr>"

text \<open>
  \<^verbatim>\<open>newArray += row\<close> for a row of shape \<open>(1, k)\<close>: \<open>k\<close> is the width of the array, or 1;
  any other row cannot be broadcast and raises.
\<close>

definition iadd_row :: "fpu \<Rightarrow> f64 matrix \<Rightarrow> f64 list \<Rightarrow> error + f64 matrix" where
  "iadd_row fp a row =
     (if length row = n_cols a
      then Inr \<lparr>n_cols = n_cols a, rws = map (\<lambda>r. map2 (fadd fp) r row) (rws a)\<rparr>
      else if length row = 1
      then Inr \<lparr>n_cols = n_cols a, rws = map (map (\<lambda>x. fadd fp x (hd row))) (rws a)\<rparr>
      else Inl ValueError)"

text \<open>
  \<^verbatim>\<open>pc - row\<close> for a row of shape \<open>(1, k)\<close>: the result has the wider of the two widths
  when the other is equal or 1.
\<close>

definition sub_row :: "fpu \<Rightarrow> f64 matrix \<Rightarrow> f64 list \<Rightarrow> error + f64 matrix" where
  "sub_row fp a row =
     (if length row = n_cols a
      then Inr \<lparr>n_cols = n_cols a, rws = map (\<lambda>r. map2 (fsub fp) r row) (rws a)\<rparr>
      else if length row = 1
      then Inr \<lparr>n_cols = n_cols a, rws = map (map (\<lambda>x. fsub fp x (hd row))) (rws a)\<rparr>
      else if n_cols a = 1
      then Inr \<lparr>n_cols = length row, rws = map (\<lambda>r. map (fsub fp (hd r)) row) (rws a)\<rparr>
      else Inl ValueError)"

text \<open>
  \<^verbatim>\<open>target[...] = value\<close> where the target has \<open>n\<close> rows and \<open>t\<close> columns: the rows that
  are stored. A value with one row, or one column, is repeated.
\<close>

definition assign_bc :: "nat \<Rightarrow> nat \<Rightarrow> 'a matrix \<Rightarrow> error + 'a list list" where
  "assign_bc n t v =
     (if (n_rows v = n \<or> n_rows v = 1) \<and> (n_cols v = t \<or> n_cols v = 1)
      then Inr (map (\<lambda>i. map (\<lambda>j. rws v ! (if n_rows v = 1 then 0 else i)
                                       ! (if n_cols v = 1 then 0 else j)) [0..<t]) [0..<n])
      else Inl ValueError)"

text \<open>\<^verbatim>\<open>np.mean(a, axis=0)\<close>.\<close>

definition mean_axis0 :: "fpu \<Rightarrow> f64 matrix \<Rightarrow> f64 list" where
  "mean_axis0 fp a = map (\<lambda>j. fmean fp (map (\<lambda>r. r ! j) (rws a))) [0..<n_cols a]"

text \<open>\<^verbatim>\<open>xs[i]\<close> on a one-dimensional array.\<close>

definition item :: "'a list \<Rightarrow> nat \<Rightarrow> error + 'a" where
  "item xs i = (if i < length xs then Inr (xs ! i) else Inl IndexError)"

subsection \<open>Reading\<close>

text \<open>
  \<^verbatim>\<open>
  def shift_array(array, shift, config=None, debug=False):
      newArray = array.astype(float)
      newArray += np.array(shift).reshape(1, -1)
      if config is not None:
          try:
              globalShift = eval(config['SBF']['GlobalShift'])
              newArray += np.array(globalShift).reshape(1, -1)
          except:
              pass
      return newArray
  \<close>
  Whatever is raised between \<^verbatim>\<open>try\<close> and \<^verbatim>\<open>except\<close> (a missing key, an exception of
  \<^verbatim>\<open>eval\<close>, a row that cannot be added) is dropped, and the array comes back without a
  global shift.
\<close>

definition shift_array ::
  "evaluator \<Rightarrow> fpu \<Rightarrow> f32 matrix \<Rightarrow> f64 list \<Rightarrow> config option \<Rightarrow> error + f64 matrix" where
  "shift_array ev fp array shift config =
     (let newArray = \<lparr>n_cols = n_cols array, rws = map (map (widen fp)) (rws array)\<rparr>
      in case iadd_row fp newArray shift of Inl e \<Rightarrow> Inl e | Inr newArray1 \<Rightarrow>
         (case config of
            None \<Rightarrow> Inr newArray1
          | Some c \<Rightarrow>
              (case get_option c ''SBF'' ''GlobalShift'' of
                 Inl e \<Rightarrow> Inr newArray1
               | Inr text \<Rightarrow>
                   (case ev text of
                      Inl e \<Rightarrow> Inr newArray1
                    | Inr globalShift \<Rightarrow>
                        (case iadd_row fp newArray1 globalShift of
                           Inl e \<Rightarrow> Inr newArray1
                         | Inr newArray2 \<Rightarrow> Inr newArray2)))))"

text \<open>
  \<^verbatim>\<open>
  def read_sbf_header(sbf, verbose=False):
      config = configparser.ConfigParser()
      config.optionxform = str
      with open(sbf) as f:
          config.read_file(f)
          if 'SBF' not in config:
              print('sbf badly formatted, no [SBF] section')
          else:
              return config
  \<close>
  The argument is the header file as \<^verbatim>\<open>read_file\<close> parses it. Without a section
  \<^verbatim>\<open>SBF\<close> the function prints a message and returns \<^verbatim>\<open>None\<close>.
\<close>

definition read_sbf_header :: "config \<Rightarrow> config option" where
  "read_sbf_header header = (if map_of header ''SBF'' = None then None else Some header)"

text \<open>
  The first 64 bytes of the data file:
  \<^verbatim>\<open>
  bytes_ = f.read(64)
  flag = bytes_[0:2]
  Np = struct.unpack('>Q', bytes_[2:10])[0]
  Ns = struct.unpack('>H', bytes_[10:12])[0]
  x_shift = struct.unpack('>d', bytes_[12:20])[0]
  y_shift = struct.unpack('>d', bytes_[20:28])[0]
  z_shift = struct.unpack('>d', bytes_[28:36])[0]
  \<close>
  The flag and the bytes 36 to 63 are not looked at.
\<close>

definition unpack_preamble :: "byte list \<Rightarrow> error + (nat \<times> nat \<times> f64 list)" where
  "unpack_preamble bytes =
     (case unpack_Q (slice 2 10 bytes) of Inl e \<Rightarrow> Inl e | Inr Np \<Rightarrow>
      case unpack_H (slice 10 12 bytes) of Inl e \<Rightarrow> Inl e | Inr Ns \<Rightarrow>
      case unpack_d (slice 12 20 bytes) of Inl e \<Rightarrow> Inl e | Inr x_shift \<Rightarrow>
      case unpack_d (slice 20 28 bytes) of Inl e \<Rightarrow> Inl e | Inr y_shift \<Rightarrow>
      case unpack_d (slice 28 36 bytes) of Inl e \<Rightarrow> Inl e | Inr z_shift \<Rightarrow>
      Inr (Np, Ns, [x_shift, y_shift, z_shift]))"

text \<open>
  \<^verbatim>\<open>
  def read_sbf(sbf, verbose=False):
      config = read_sbf_header(sbf, verbose=verbose)
      sbf_data = sbf + '.data'
      with open(sbf_data, 'rb') as f:
          bytes_ = f.read(64)
          ...
          array = np.fromfile(f, dtype='>f').reshape(Np, Ns+3)
          shift = np.array((x_shift, y_shift, z_shift)).reshape(1, 3)
      pc = shift_array(array[:, :3], shift, config)
      if Ns != 0:
          sf = array[:, 3:]
      else:
          sf = None
      return pc, sf, config
  \<close>
  \<open>header\<close> is the parsed header file and \<open>payload\<close> the bytes of the data file.
\<close>

definition read_sbf ::
  "evaluator \<Rightarrow> fpu \<Rightarrow> config \<Rightarrow> byte list
     \<Rightarrow> error + (f64 matrix \<times> f32 matrix option \<times> config option)" where
  "read_sbf ev fp header payload =
     (let config = read_sbf_header header
      in case unpack_preamble (take 64 payload) of Inl e \<Rightarrow> Inl e | Inr (Np, Ns, shift) \<Rightarrow>
         case reshape Np (Ns + 3) (fromfile_f (drop 64 payload)) of
           Inl e \<Rightarrow> Inl e | Inr array \<Rightarrow>
         case shift_array ev fp (cols_to 3 array) shift config of Inl e \<Rightarrow> Inl e | Inr pc \<Rightarrow>
         Inr (pc, if Ns \<noteq> 0 then Some (cols_from 3 array) else None, config))"

subsection \<open>Writing\<close>

text \<open>
  What a call of \<^verbatim>\<open>write_sbf\<close> leaves behind: the header file (the configuration that
  \<^verbatim>\<open>config.write\<close> stored, if the call got that far), the data file (the bytes written
  before the file was closed, if it was opened) and the exception it raised, if any.
\<close>

record written =
  sbf_file :: "config option"
  sbf_data_file :: "byte list option"
  raised :: "error option"

text \<open>
  The header, up to \<^verbatim>\<open>config.write(sbf)\<close>:
  \<^verbatim>\<open>
  if sf is not None: SFCount = sf.shape[1]
  else: SFCount = 0
  Points = pc.shape[0]
  if config is None:
      dict_SF = {f'SF{k+1}':f'{k+1}' for k in range(SFCount)}
      config = configparser.ConfigParser()
      config.optionxform = str
      config['SBF'] = {'Points': str(Points), 'SFCount': str(SFCount),
                       'GlobalShift': '0., 0., 0.', **dict_SF}
  else:
      # enforce the coherence of the number of points
      config['SBF']['Points'] = str(Points)
      config['SBF']['SFCount'] = str(SFCount)
  if add_index is True:
      if 'SFCount' in config['SBF']: SFCount += 1
      else: SFCount = 1
      config['SBF']['SFcount'] = str(SFCount)
      config['SBF'][f'SF{SFCount}'] = 'index'
  if normals is not None:
      if 'SFCount' in config['SBF']: SFCount += 3
      else: SFCount = 3
      config['SBF']['SFcount'] = str(SFCount)
      config['SBF'][f'SF{SFCount+1}'] = 'Nx'
      config['SBF'][f'SF{SFCount+2}'] = 'Ny'
      config['SBF'][f'SF{SFCount+3}'] = 'Nz'
  \<close>
  The result is the final \<^verbatim>\<open>SFCount\<close> and the configuration to store.
\<close>

definition has_option :: "config \<Rightarrow> string \<Rightarrow> string \<Rightarrow> bool" where
  "has_option config sec key =
     (case map_of config sec of None \<Rightarrow> False | Some s \<Rightarrow> map_of s key \<noteq> None)"

definition set_options :: "config \<Rightarrow> string \<Rightarrow> (string \<times> string) list \<Rightarrow> error + config" where
  "set_options config sec kvs =
     fold (\<lambda>kv r. case r of Inl e \<Rightarrow> Inl e | Inr c \<Rightarrow> set_option c sec (fst kv) (snd kv))
       kvs (Inr config)"

definition write_header ::
  "nat \<Rightarrow> nat \<Rightarrow> config option \<Rightarrow> bool \<Rightarrow> bool \<Rightarrow> error + (nat \<times> config)" where
  "write_header Points SFCount0 config add_index with_normals =
     (case (case config of
              None \<Rightarrow>
                Inr [(''SBF'',
                      [(''Points'', str_int (int Points)), (''SFCount'', str_int (int SFCount0)),
                       (''GlobalShift'', ''0., 0., 0.'')]
                      @ map (\<lambda>k. (SF_key (int k + 1), str_int (int k + 1))) [0..<SFCount0])]
            | Some c \<Rightarrow>
                set_options c ''SBF''
                  [(''Points'', str_int (int Points)), (''SFCount'', str_int (int SFCount0))])
      of Inl e \<Rightarrow> Inl e | Inr config1 \<Rightarrow>
      case (if add_index
            then (let SFCount = (if has_option config1 ''SBF'' ''SFCount'' then SFCount0 + 1 else 1)
                  in case set_options config1 ''SBF''
                            [(''SFcount'', str_int (int SFCount)),
                             (SF_key (int SFCount), ''index'')]
                     of Inl e \<Rightarrow> Inl e | Inr c \<Rightarrow> Inr (SFCount, c))
            else Inr (SFCount0, config1))
      of Inl e \<Rightarrow> Inl e | Inr (SFCount1, config2) \<Rightarrow>
      if with_normals
      then (let SFCount = (if has_option config2 ''SBF'' ''SFCount'' then SFCount1 + 3 else 3)
            in case set_options config2 ''SBF''
                      [(''SFcount'', str_int (int SFCount)),
                       (SF_key (int SFCount + 1), ''Nx''),
                       (SF_key (int SFCount + 2), ''Ny''),
                       (SF_key (int SFCount + 3), ''Nz'')]
               of Inl e \<Rightarrow> Inl e | Inr c \<Rightarrow> Inr (SFCount, c))
      else Inr (SFCount1, config2))"

text \<open>
  The local shift and the array that is stored:
  \<^verbatim>\<open>
  globalShift = eval(config['SBF']['GlobalShift'])
  pcOrig = pc - np.array(globalShift).reshape(1, -1)
  shift = np.mean(pcOrig, axis=0).astype(float)
  a = np.zeros((Points, SFCount + 3)).astype('>f')
  a[:, :3] = (pcOrig - shift).astype('>f')
  if SFCount != 0:
      a[:, 3:] = sf.astype('>f')
  if add_index is True:
      b = np.zeros((Points, SFCount + 1)).astype('>f')
      b[:, :-1] = a
      b[:, -1] = np.arange(Points).astype('>f')
      a = b
  \<close>
  The scalar fields are held in single precision, as \<^verbatim>\<open>read_sbf\<close> returns them.
\<close>

definition stored_array ::
  "evaluator \<Rightarrow> fpu \<Rightarrow> f64 matrix \<Rightarrow> f32 matrix option \<Rightarrow> config \<Rightarrow> nat \<Rightarrow> bool
     \<Rightarrow> error + (f64 list \<times> f32 list list)" where
  "stored_array ev fp pc sf config SFCount add_index =
     (let Points = n_rows pc
      in case get_option config ''SBF'' ''GlobalShift'' of Inl e \<Rightarrow> Inl e | Inr text \<Rightarrow>
         case ev text of Inl e \<Rightarrow> Inl e | Inr globalShift \<Rightarrow>
         case sub_row fp pc globalShift of Inl e \<Rightarrow> Inl e | Inr pcOrig \<Rightarrow>
         let shift = mean_axis0 fp pcOrig;
             resid = \<lparr>n_cols = n_cols pcOrig,
                      rws = map (\<lambda>r. map (narrow fp) (map2 (fsub fp) r shift)) (rws pcOrig)\<rparr>
         in case assign_bc Points 3 resid of Inl e \<Rightarrow> Inl e | Inr xyz \<Rightarrow>
            case (if SFCount \<noteq> 0
                  then (case sf of
                          None \<Rightarrow> Inl AttributeError
                        | Some m \<Rightarrow> assign_bc Points SFCount m)
                  else Inr (replicate Points []))
            of Inl e \<Rightarrow> Inl e | Inr sfs \<Rightarrow>
            let a = map2 (@) xyz sfs
            in if add_index
               then (case assign_bc Points SFCount \<lparr>n_cols = SFCount + 3, rws = a\<rparr> of
                       Inl e \<Rightarrow> Inl e
                     | Inr b \<Rightarrow> Inr (shift, map2 (\<lambda>r i. r @ [of_index fp i]) b [0..<Points]))
               else Inr (shift, a))"

text \<open>
  The data file:
  \<^verbatim>\<open>
  with open(path_to_sbf_data, 'wb') as sbf_data:
      flag = bytearray([42, 42])
      sbf_data.write(flag)
      sbf_data.write(struct.pack('>Q', Points))
      sbf_data.write(struct.pack('>H', SFCount))
      sbf_data.write(struct.pack('>d', shift[0]))
      sbf_data.write(struct.pack('>d', shift[1]))
      sbf_data.write(struct.pack('>d', shift[2]))
      sbf_data.write(bytes(63-36+1))
      sbf_data.write(a)
  \<close>
  The result is what the file holds when it is closed, and the exception if one was
  raised on the way.
\<close>

definition write_data ::
  "nat \<Rightarrow> nat \<Rightarrow> f64 list \<Rightarrow> f32 list list \<Rightarrow> byte list \<times> error option" where
  "write_data Points SFCount shift a =
     (let f1 = [42, 42]
      in case pack_Q Points of Inl e \<Rightarrow> (f1, Some e) | Inr q \<Rightarrow>
         let f2 = f1 @ q
         in case pack_H SFCount of Inl e \<Rightarrow> (f2, Some e) | Inr h \<Rightarrow>
            let f3 = f2 @ h
            in case item shift 0 of Inl e \<Rightarrow> (f3, Some e) | Inr x \<Rightarrow>
               let f4 = f3 @ pack_d x
               in case item shift 1 of Inl e \<Rightarrow> (f4, Some e) | Inr y \<Rightarrow>
                  let f5 = f4 @ pack_d y
                  in case item shift 2 of Inl e \<Rightarrow> (f5, Some e) | Inr z \<Rightarrow>
                     (f5 @ pack_d z @ replicate 28 0 @ concat (map (concat \<circ> map pack_f) a),
                      None))"

text \<open>
  \<^verbatim>\<open>def write_sbf(sbf, pc, sf, config=None, add_index=False, normals=None)\<close>: the three
  parts in turn. The header file is written before \<^verbatim>\<open>GlobalShift\<close> is evaluated, so an
  exception of the second part leaves a header file and no new data file.
\<close>

definition write_sbf ::
  "evaluator \<Rightarrow> fpu \<Rightarrow> f64 matrix \<Rightarrow> f32 matrix option \<Rightarrow> config option \<Rightarrow> bool
     \<Rightarrow> f64 matrix option \<Rightarrow> written" where
  "write_sbf ev fp pc sf config add_index normals =
     (let SFCount0 = (case sf of Some m \<Rightarrow> n_cols m | None \<Rightarrow> 0);
          Points = n_rows pc
      in case write_header Points SFCount0 config add_index (normals \<noteq> None) of
           Inl e \<Rightarrow> \<lparr>sbf_file = None, sbf_data_file = None, raised = Some e\<rparr>
         | Inr (SFCount, config') \<Rightarrow>
             (case stored_array ev fp pc sf config' SFCount add_index of
                Inl e \<Rightarrow> \<lparr>sbf_file = Some config', sbf_data_file = None, raised = Some e\<rparr>
              | Inr (shift, a) \<Rightarrow>
                  (let (bytes, e) = write_data Points SFCount shift a
                   in \<lparr>sbf_file = Some config', sbf_data_file = Some bytes, raised = e\<rparr>)))"

section \<open>Properties\<close>

subsection \<open>Printing and reading integers, and the keys of scalar fields\<close>

lemma digit_char_is_digit: "d < 10 \<Longrightarrow> is_digit (digit_char d)"
proof -
  assume "d < 10"
  then have "d \<in> {0,1,2,3,4,5,6,7,8,9}" by auto
  then show ?thesis by (auto simp: is_digit_def digit_char_def)
qed

lemma digit_val_digit_char: "d < 10 \<Longrightarrow> digit_val (digit_char d) = d"
proof -
  assume "d < 10"
  then have "d \<in> {0,1,2,3,4,5,6,7,8,9}" by auto
  then show ?thesis by (auto simp: digit_val_def digit_char_def)
qed

lemma str_nat_nonempty: "str_nat n \<noteq> []"
  by (subst str_nat.simps) simp

lemma str_nat_all_digits: "\<forall>c\<in>set (str_nat n). is_digit c"
proof (induction n rule: str_nat.induct)
  case (1 n)
  show ?case
  proof (cases "n < 10")
    case True
    then show ?thesis by (subst str_nat.simps) (simp add: digit_char_is_digit)
  next
    case False
    with 1 show ?thesis by (subst str_nat.simps) (auto simp: digit_char_is_digit)
  qed
qed

lemma int_digits_all_digits: "xs \<noteq> [] \<Longrightarrow> \<forall>c\<in>set xs. is_digit c \<Longrightarrow> int_digits xs"
proof (induction xs rule: int_digits.induct)
  case (3 c d cs)
  then have "d \<noteq> CHR ''_''" by (auto simp: is_digit_def)
  with 3 show ?case by simp
qed simp_all

lemma digits_value_str_nat: "digits_value (str_nat n) = n"
proof (induction n rule: str_nat.induct)
  case (1 n)
  show ?case
  proof (cases "n < 10")
    case True
    then show ?thesis
      by (subst str_nat.simps) (simp add: digits_value_def digit_char_is_digit digit_val_digit_char)
  next
    case False
    have f: "filter is_digit (str_nat (n div 10)) = str_nat (n div 10)"
      using str_nat_all_digits by (simp add: filter_id_conv)
    from False 1 have "digits_value (str_nat (n div 10)) = n div 10" by simp
    then have "foldl (\<lambda>a c. 10 * a + digit_val c) 0 (str_nat (n div 10)) = n div 10"
      by (simp add: digits_value_def f)
    with False show ?thesis
      by (subst str_nat.simps) (simp add: digits_value_def f digit_char_is_digit digit_val_digit_char)
  qed
qed

lemma is_digit_not_space: "is_digit c \<Longrightarrow> \<not> is_space c"
  by (auto simp: is_digit_def is_space_def)

lemma strip_id: "s \<noteq> [] \<Longrightarrow> \<not> is_space (hd s) \<Longrightarrow> \<not> is_space (last s) \<Longrightarrow> strip s = s"
proof -
  assume a: "s \<noteq> []" "\<not> is_space (hd s)" "\<not> is_space (last s)"
  then have 1: "dropWhile is_space s = s" by (cases s) auto
  from a have "rev s \<noteq> []" "\<not> is_space (hd (rev s))" by (auto simp: hd_rev)
  then have 2: "dropWhile is_space (rev s) = rev s" by (cases "rev s") auto
  show ?thesis by (simp add: strip_def 1 2)
qed

lemma str_nat_hd_digit: "is_digit (hd (str_nat n))"
  using str_nat_nonempty str_nat_all_digits by (metis hd_in_set)

lemma str_nat_last_digit: "is_digit (last (str_nat n))"
  using str_nat_nonempty str_nat_all_digits by (metis last_in_set)

lemma py_int_str_nat: "py_int (str_nat n) = Some (int n)"
proof -
  have s: "strip (str_nat n) = str_nat n"
    by (rule strip_id) (simp_all add: str_nat_nonempty is_digit_not_space str_nat_hd_digit str_nat_last_digit)
  have h: "hd (str_nat n) \<noteq> CHR ''-''" "hd (str_nat n) \<noteq> CHR ''+''"
    using str_nat_hd_digit [of n] by (auto simp: is_digit_def)
  show ?thesis
    by (simp add: py_int_def s h Let_def int_digits_all_digits str_nat_nonempty
        str_nat_all_digits digits_value_str_nat)
qed

lemma py_int_str_int: "py_int (str_int i) = Some i"
proof (cases "i < 0")
  case False
  then show ?thesis by (simp add: str_int_def py_int_str_nat)
next
  case True
  let ?s = "CHR ''-'' # str_nat (nat (- i))"
  have "\<not> is_space (last ?s)"
    using str_nat_last_digit [of "nat (- i)"] by (simp add: str_nat_nonempty is_digit_not_space)
  then have s: "strip ?s = ?s"
    by (intro strip_id) (simp_all add: is_space_def)
  from True show ?thesis
    by (simp add: str_int_def py_int_def s Let_def int_digits_all_digits str_nat_nonempty
        str_nat_all_digits digits_value_str_nat)
qed

lemma str_int_inj: "str_int i = str_int j \<Longrightarrow> i = j"
  by (metis py_int_str_int option.inject)

lemma SF_key_inj [simp]: "SF_key i = SF_key j \<longleftrightarrow> i = j"
  by (auto simp: SF_key_def dest: str_int_inj)

lemma str_int_chars: "c \<in> set (str_int i) \<Longrightarrow> is_digit c \<or> c = CHR ''-''"
  using str_nat_all_digits by (auto simp: str_int_def split: if_splits)

lemma str_int_nonempty: "str_int i \<noteq> []"
  by (simp add: str_int_def str_nat_nonempty)

lemma split_SF_no_S: "CHR ''S'' \<notin> set s \<Longrightarrow> split_SF s = [s]"
  by (induction s rule: split_SF.induct) auto

lemma split_SF_key: "split_SF (SF_key i) = [[], str_int i]"
proof -
  have "CHR ''S'' \<notin> set (str_int i)"
    using str_int_chars [of "CHR ''S''" i] by (auto simp: is_digit_def)
  then show ?thesis by (simp add: SF_key_def split_SF_no_S)
qed

lemma sf_index_of_SF_key [simp]: "sf_index_of_key (SF_key i) = Some (i - 1)"
  by (simp add: sf_index_of_key_def split_SF_key is_int_def py_int_str_int)

lemma SF_key_not_name:
  "SF_key i \<noteq> ''SFCount''" "SF_key i \<noteq> ''Points''" "SF_key i \<noteq> ''GlobalShift''"
  "SF_key i \<noteq> ''SFcount''"
proof -
  have h: "is_digit (hd (str_int i)) \<or> hd (str_int i) = CHR ''-''"
    using str_int_chars [of "hd (str_int i)" i] str_int_nonempty [of i] by simp
  have "hd (str_int i) \<noteq> CHR ''C''" "hd (str_int i) \<noteq> CHR ''c''"
    using h by (auto simp: is_digit_def)
  then show "SF_key i \<noteq> ''SFCount''" "SF_key i \<noteq> ''SFcount''"
    by (auto simp: SF_key_def)
  show "SF_key i \<noteq> ''Points''" "SF_key i \<noteq> ''GlobalShift''"
    by (simp_all add: SF_key_def)
qed

subsection \<open>Dictionaries and the index of a name\<close>

lemma dict_get_Inr [simp]: "dict_get d k = Inr v \<longleftrightarrow> map_of d k = Some v"
  by (simp add: dict_get_def split: option.splits)

lemma dict_get_Inl [simp]: "dict_get d k = Inl e \<longleftrightarrow> map_of d k = None \<and> e = KeyError"
  by (auto simp: dict_get_def split: option.splits)








subsection \<open>Adding and removing a scalar field\<close>


lemma fold_snoc: "fold f (xs @ [x]) d = f x (fold f xs d)"
  by simp






subsection \<open>Instances\<close>

lemmas sbf_eval =
  str_int_def str_nat.simps digit_char_def py_int_def strip_def is_space_def is_digit_def
  digits_value_def digit_val_def sf_index_of_key_def is_int_def SF_key_def
  dict_get_def get_option_def set_option_def int_option_def get_name_index_dict_def
  name_index_step_def sf_names_def sf_keys_canonical_def n_rows_def





subsection \<open>Reading: the payload decides\<close>

lemma iadd_row_same_width:
  "length row = n_cols a \<Longrightarrow>
   iadd_row fp a row = Inr \<lparr>n_cols = n_cols a, rws = map (\<lambda>r. map2 (fadd fp) r row) (rws a)\<rparr>"
  by (simp add: iadd_row_def)

lemma shift_array_width3:
  assumes "n_cols a = 3" "length shift = 3"
  shows "\<exists>pc. shift_array ev fp a shift config = Inr pc \<and> n_cols pc = 3 \<and> n_rows pc = n_rows a"
  using assms
  by (auto simp: shift_array_def iadd_row_def n_rows_def Let_def
      split: sum.splits option.splits)

lemma unpack_preamble_shift:
  "unpack_preamble b = Inr (Np, Ns, shift) \<Longrightarrow> length shift = 3"
  by (auto simp: unpack_preamble_def split: sum.splits)

lemma reshape_ok:
  "n < 2 ^ 63 \<Longrightarrow> length xs = n * w \<Longrightarrow>
   reshape n w xs = Inr \<lparr>n_cols = w, rws = map (\<lambda>i. take w (drop (i * w) xs)) [0..<n]\<rparr>"
  by (simp add: reshape_def)

lemma read_sbf_ok:
  assumes pre: "unpack_preamble (take 64 payload) = Inr (Np, Ns, shift)"
    and bound: "Np < 2 ^ 63"
    and size: "length (fromfile_f (drop 64 payload)) = Np * (Ns + 3)"
  shows "\<exists>array pc. reshape Np (Ns + 3) (fromfile_f (drop 64 payload)) = Inr array
           \<and> n_cols array = Ns + 3 \<and> n_rows array = Np
           \<and> shift_array ev fp (cols_to 3 array) shift (read_sbf_header header) = Inr pc
           \<and> n_cols pc = 3 \<and> n_rows pc = Np
           \<and> read_sbf ev fp header payload
               = Inr (pc, if Ns \<noteq> 0 then Some (cols_from 3 array) else None, read_sbf_header header)"
proof -
  let ?xs = "fromfile_f (drop 64 payload)"
  let ?array = "\<lparr>n_cols = Ns + 3, rws = map (\<lambda>i. take (Ns + 3) (drop (i * (Ns + 3)) ?xs)) [0..<Np]\<rparr>"
  have r: "reshape Np (Ns + 3) ?xs = Inr ?array"
    by (rule reshape_ok [OF bound size])
  have c3: "n_cols (cols_to 3 ?array) = 3" "n_rows (cols_to 3 ?array) = Np"
    by (simp_all add: cols_to_def n_rows_def)
  from shift_array_width3 [OF c3(1) unpack_preamble_shift [OF pre], of ev fp "read_sbf_header header"]
  obtain pc where pc: "shift_array ev fp (cols_to 3 ?array) shift (read_sbf_header header) = Inr pc"
    "n_cols pc = 3" "n_rows pc = Np"
    using c3(2) by auto
  have "read_sbf ev fp header payload
          = Inr (pc, if Ns \<noteq> 0 then Some (cols_from 3 ?array) else None, read_sbf_header header)"
    by (simp add: read_sbf_def pre r pc Let_def)
  with r pc show ?thesis
    by (intro exI [of _ ?array] exI [of _ pc]) (simp add: n_rows_def)
qed

lemma length_fromfile_f: "length (fromfile_f xs) = length xs div 4"
  by (induction xs rule: fromfile_f.induct) simp_all


lemma foldl_be_zeros: "foldl (\<lambda>a b. a * 256 + unat b) 0 (replicate n (0 :: byte)) = 0"
  by (induction n) simp_all


lemma get_option_update_other:
  "map_of header ''SBF'' = Some sec \<Longrightarrow> key \<noteq> k \<Longrightarrow>
   get_option (AList.update ''SBF'' (AList.update k v sec) header) ''SBF'' key
     = get_option header ''SBF'' key"
  by (simp add: get_option_def dict_get_def update_conv')





text \<open>
  Claim C6, as amended. \<^verbatim>\<open>read_sbf_header\<close> raises nothing and looks at nothing but the
  presence of the section \<^verbatim>\<open>SBF\<close>: with the section it returns the header as parsed,
  whatever \<^verbatim>\<open>Points\<close>, \<^verbatim>\<open>SFCount\<close> and the keys \<^verbatim>\<open>SFk\<close> are; without it it returns
  \<^verbatim>\<open>None\<close>, and \<^verbatim>\<open>read_sbf\<close> goes on and reads the payload as it does for an empty
  header.
\<close>

theorem read_sbf_header_checks_section_only:
  "(map_of header ''SBF'' \<noteq> None \<longrightarrow> read_sbf_header header = Some header)
   \<and> (map_of header ''SBF'' = None \<longrightarrow>
        read_sbf_header header = None
        \<and> read_sbf ev fp header payload = read_sbf ev fp [] payload)"
  by (simp add: read_sbf_header_def read_sbf_def)


subsection \<open>Reading: instances\<close>

lemmas payload_eval =
  unpack_preamble_def unpack_Q_def unpack_H_def unpack_d_def slice_def be_nat_def
  foldl_be_zeros length_fromfile_f





theorem read_sbf_header_checks_section_only_witness:
  "map_of [(''SBF'', [(''Points'', ''3'')])] ''SBF'' \<noteq> None
   \<and> read_sbf_header [(''SBF'', [(''Points'', ''3'')])] = Some [(''SBF'', [(''Points'', ''3'')])]
   \<and> map_of [(''OTHER'', [(''Points'', ''3'')])] ''SBF'' = None
   \<and> read_sbf_header [(''OTHER'', [(''Points'', ''3'')])] = None
   \<and> (\<forall>ev fp payload. read_sbf ev fp [(''OTHER'', [(''Points'', ''3'')])] payload
                          = read_sbf ev fp [] payload)"
proof -
  have a: "map_of [(''SBF'', [(''Points'', ''3'')])] ''SBF'' \<noteq> None" by simp
  have b: "map_of [(''OTHER'', [(''Points'', ''3'')])] ''SBF'' = None" by simp
  from a read_sbf_header_checks_section_only [of "[(''SBF'', [(''Points'', ''3'')])]"]
  have 1: "read_sbf_header [(''SBF'', [(''Points'', ''3'')])] = Some [(''SBF'', [(''Points'', ''3'')])]"
    by blast
  from b read_sbf_header_checks_section_only [of "[(''OTHER'', [(''Points'', ''3'')])]"]
  have 2: "read_sbf_header [(''OTHER'', [(''Points'', ''3'')])] = None"
    and 3: "read_sbf ev fp [(''OTHER'', [(''Points'', ''3'')])] payload = read_sbf ev fp [] payload"
    for ev fp payload
    by blast+
  from a b 1 2 3 show ?thesis by blast
qed

text \<open>
  The claim C6 as it stands fails: a header whose \<^verbatim>\<open>Points\<close> is no integer, whose
  \<^verbatim>\<open>SFCount\<close> is negative and whose only field key is \<^verbatim>\<open>SF3\<close> is returned as it is, and
  a header without a section \<^verbatim>\<open>SBF\<close> gives \<^verbatim>\<open>None\<close> and a finished read.
\<close>

theorem header_malformed_counterexample:
  "py_int ''abc'' = None
   \<and> py_int ''-1'' = Some (- 1)
   \<and> read_sbf_header [(''SBF'', [(''Points'', ''abc''), (''SFCount'', ''-1''), (''SF3'', ''z'')])]
       = Some [(''SBF'', [(''Points'', ''abc''), (''SFCount'', ''-1''), (''SF3'', ''z'')])]
   \<and> read_sbf_header [(''OTHER'', [])] = None
   \<and> (\<forall>ev fp. \<exists>pc.
         read_sbf ev fp [(''OTHER'', [])]
           ([42, 42, 0, 0, 0, 0, 0, 0, 0, 1, 0, 0] @ replicate 52 0 @ replicate 12 0)
         = Inr (pc, None, None)
         \<and> n_rows pc = 1)"
proof -
  let ?payload = "[42, 42, 0, 0, 0, 0, 0, 0, 0, 1, 0, 0] @ replicate 52 0 @ replicate 12 (0 :: byte)"
  have pre: "unpack_preamble (take 64 ?payload) = Inr (1, 0, [0, 0, 0])"
    by (simp add: payload_eval)
  have bound: "(1 :: nat) < 2 ^ 63" by simp
  have size: "length (fromfile_f (drop 64 ?payload)) = 1 * (0 + 3)"
    by (simp add: payload_eval)
  have h: "read_sbf_header [(''OTHER'', [])] = None"
    by (simp add: read_sbf_header_def)
  have r: "\<exists>pc. read_sbf ev fp [(''OTHER'', [])] ?payload = Inr (pc, None, None) \<and> n_rows pc = 1"
    for ev fp
    using read_sbf_ok [OF pre bound size, of ev fp "[(''OTHER'', [])]"] h by auto
  have p: "py_int ''abc'' = None" "py_int ''-1'' = Some (- 1)"
    by (simp_all add: sbf_eval)
  have s: "read_sbf_header [(''SBF'', [(''Points'', ''abc''), (''SFCount'', ''-1''), (''SF3'', ''z'')])]
       = Some [(''SBF'', [(''Points'', ''abc''), (''SFCount'', ''-1''), (''SF3'', ''z'')])]"
    by (simp add: read_sbf_header_def)
  from p s h r show ?thesis by blast
qed


subsection \<open>Writing: instances\<close>

lemmas write_eval =
  write_sbf_def write_header_def set_options_def has_option_def stored_array_def
  write_data_def sub_row_def mean_axis0_def assign_bc_def item_def pack_Q_def pack_H_def
  be_bytes_def n_rows_def

lemma upt_3: "[0..<3] = [0, 1, 2]"
  by (simp add: upt_rec)

lemma upt_4: "[0..<4] = [0, 1, 2, 3]"
  by (simp add: upt_rec)

lemma upt_8: "[0..<8] = [0, 1, 2, 3, 4, 5, 6, 7]"
  by (simp add: upt_rec)

lemma upt_2: "[0..<2] = [0, 1]"
  by (simp add: upt_rec)

text \<open>
  Claim C3, where the code fails it. A document whose header has no key \<^verbatim>\<open>GlobalShift\<close>
  (which \<^verbatim>\<open>shift_array\<close> reads as a shift of zero) cannot be written: \<^verbatim>\<open>write_sbf\<close>
  stores the header file, then raises \<^verbatim>\<open>KeyError\<close> on \<^verbatim>\<open>config['SBF']['GlobalShift']\<close>
  before it opens the data file, so there is nothing to read back.
\<close>

theorem write_sbf_without_global_shift:
  "\<forall>ev fp.
     write_sbf ev fp \<lparr>n_cols = 3, rws = [[1, 2, 3]]\<rparr> None
       (Some [(''SBF'', [(''Points'', ''1''), (''SFCount'', ''0'')])]) False None
     = \<lparr>sbf_file = Some [(''SBF'', [(''Points'', ''1''), (''SFCount'', ''0'')])],
        sbf_data_file = None, raised = Some KeyError\<rparr>"
  by (simp add: write_eval sbf_eval del: dict_get_Inr dict_get_Inl)

text \<open>
  Claim C5, where the code fails it. Written with \<^verbatim>\<open>normals\<close> given, a document of one
  point and one scalar field gets a header whose \<^verbatim>\<open>SFCount\<close> is 1 (the new count went
  to the key \<^verbatim>\<open>SFcount\<close>) and a payload whose preamble declares 4 scalar fields, each of
  them the one column of the document.
\<close>

theorem write_sbf_normals_header_mismatch:
  "\<forall>ev fp.
     sbf_file (write_sbf (ev(''0., 0., 0.'' := Inr [0, 0, 0])) fp
                \<lparr>n_cols = 3, rws = [[1, 2, 3]]\<rparr> (Some \<lparr>n_cols = 1, rws = [[7]]\<rparr>)
                (Some [(''SBF'', [(''Points'', ''1''), (''SFCount'', ''1''),
                                  (''GlobalShift'', ''0., 0., 0.''), (''SF1'', ''a'')])])
                False (Some \<lparr>n_cols = 3, rws = [[0, 0, 1]]\<rparr>))
       = Some [(''SBF'', [(''Points'', ''1''), (''SFCount'', ''1''),
                          (''GlobalShift'', ''0., 0., 0.''), (''SF1'', ''a''),
                          (''SFcount'', ''4''), (''SF5'', ''Nx''), (''SF6'', ''Ny''),
                          (''SF7'', ''Nz'')])]
     \<and> raised (write_sbf (ev(''0., 0., 0.'' := Inr [0, 0, 0])) fp
                \<lparr>n_cols = 3, rws = [[1, 2, 3]]\<rparr> (Some \<lparr>n_cols = 1, rws = [[7]]\<rparr>)
                (Some [(''SBF'', [(''Points'', ''1''), (''SFCount'', ''1''),
                                  (''GlobalShift'', ''0., 0., 0.''), (''SF1'', ''a'')])])
                False (Some \<lparr>n_cols = 3, rws = [[0, 0, 1]]\<rparr>))
       = None
     \<and> map_option (\<lambda>bytes. (take 12 bytes, drop 76 bytes))
         (sbf_data_file (write_sbf (ev(''0., 0., 0.'' := Inr [0, 0, 0])) fp
                \<lparr>n_cols = 3, rws = [[1, 2, 3]]\<rparr> (Some \<lparr>n_cols = 1, rws = [[7]]\<rparr>)
                (Some [(''SBF'', [(''Points'', ''1''), (''SFCount'', ''1''),
                                  (''GlobalShift'', ''0., 0., 0.''), (''SF1'', ''a'')])])
                False (Some \<lparr>n_cols = 3, rws = [[0, 0, 1]]\<rparr>)))
       = Some ([42, 42, 0, 0, 0, 0, 0, 0, 0, 1, 0, 4],
               [0, 0, 0, 7, 0, 0, 0, 7, 0, 0, 0, 7, 0, 0, 0, 7])"
  by (simp add: write_eval sbf_eval upt_3 upt_4 upt_8 upt_2 pack_d_def pack_f_def
      del: dict_get_Inr dict_get_Inl)

subsection \<open>The order of the shifts, and the counts of the header\<close>

lemma nth_rows_id:
  "\<forall>r\<in>set rs. length r = t \<Longrightarrow>
   map (\<lambda>i. map (\<lambda>j. rs ! i ! j) [0..<t]) [0..<length rs] = rs"
proof -
  assume wf: "\<forall>r\<in>set rs. length r = t"
  have "map (\<lambda>j. rs ! i ! j) [0..<t] = rs ! i" if "i < length rs" for i
    using wf that by (metis map_nth nth_mem)
  then have "map (\<lambda>i. map (\<lambda>j. rs ! i ! j) [0..<t]) [0..<length rs] = map (\<lambda>i. rs ! i) [0..<length rs]"
    by (intro map_cong) auto
  then show ?thesis by (simp add: map_nth)
qed

lemma assign_bc_same_shape:
  assumes "n_rows v = n" "n_cols v = t" "\<forall>r\<in>set (rws v). length r = t"
  shows "assign_bc n t v = Inr (rws v)"
proof -
  have "map (\<lambda>i. map (\<lambda>j. rws v ! (if n_rows v = 1 then 0 else i) ! (if n_cols v = 1 then 0 else j))
              [0..<t]) [0..<n]
        = map (\<lambda>i. map (\<lambda>j. rws v ! i ! j) [0..<t]) [0..<n]"
    using assms(1,2) by (intro map_cong) auto
  also have "\<dots> = rws v"
    using nth_rows_id [OF assms(3)] assms(1) by (simp add: n_rows_def)
  finally show ?thesis using assms(1,2) by (simp add: assign_bc_def)
qed

text \<open>
  On writing a matrix of three columns without scalar fields: the local shift is the mean
  of the columns of \<open>pc - globalShift\<close>, and each stored single is the one narrowing of
  \<open>(pc - globalShift) - shift\<close>, both subtractions in double.
\<close>

lemma stored_array_residual:
  assumes gs: "get_option config ''SBF'' ''GlobalShift'' = Inr text" "ev text = Inr g"
    and g3: "length g = 3"
    and pc3: "n_cols pc = 3" "\<forall>r\<in>set (rws pc). length r = 3"
    and shift: "shift = mean_axis0 fp \<lparr>n_cols = 3, rws = map (\<lambda>r. map2 (fsub fp) r g) (rws pc)\<rparr>"
  shows "stored_array ev fp pc None config 0 False
         = Inr (shift,
                map (\<lambda>r. map (narrow fp) (map2 (fsub fp) (map2 (fsub fp) r g) shift)) (rws pc))"
proof -
  let ?orig = "\<lparr>n_cols = 3, rws = map (\<lambda>r. map2 (fsub fp) r g) (rws pc)\<rparr>"
  let ?resid = "\<lparr>n_cols = 3,
                rws = map (\<lambda>r. map (narrow fp) (map2 (fsub fp) r shift)) (rws ?orig)\<rparr>"
  have s: "sub_row fp pc g = Inr ?orig"
    using g3 pc3 by (simp add: sub_row_def)
  have ls: "length shift = 3"
    by (simp add: shift mean_axis0_def)
  have a: "assign_bc (n_rows pc) 3 ?resid = Inr (rws ?resid)"
    using g3 pc3 ls by (intro assign_bc_same_shape) (auto simp: n_rows_def)
  have z: "map2 (@) xs (replicate (length xs) []) = xs" for xs :: "'b list list"
    by (induction xs) simp_all
  have "map2 (@) (rws ?resid) (replicate (n_rows pc) []) = rws ?resid"
    using z [of "rws ?resid"] by (simp add: n_rows_def)
  then show ?thesis
    using gs s a shift by (simp add: stored_array_def Let_def comp_def)
qed

text \<open>
  The two counts of the header. A removal that returns lowers \<^verbatim>\<open>SFCount\<close> and the number
  of columns by one; a renaming touches neither count; a write without \<^verbatim>\<open>add_index\<close> and
  \<^verbatim>\<open>normals\<close> that raises nothing stores the shape of the matrices in the header and in
  the preamble alike.
\<close>

lemma copy_SF_keeps:
  "copy_SF off src idxs new = Inr new' \<Longrightarrow> (\<forall>i. k \<noteq> SF_key i) \<Longrightarrow>
   map_of new' k = map_of new k"
proof (induction idxs arbitrary: new)
  case Nil
  then show ?case by simp
next
  case (Cons idx idxs)
  from Cons.prems(1) obtain v where v: "map_of src (SF_key (idx + off)) = Some v"
    and rest: "copy_SF off src idxs (AList.update (SF_key idx) v new) = Inr new'"
    by (auto simp: dict_get_def split: option.splits)
  from Cons.IH [OF rest Cons.prems(2)] Cons.prems(2) show ?case
    by (simp add: update_conv')
qed

lemma remove_sf_counts:
  assumes "remove_sf name sf config = Inr (sf', config')"
  shows "\<exists>n. int_option config ''SBF'' ''SFCount'' = Inr n
           \<and> int_option config' ''SBF'' ''SFCount'' = Inr (n - 1)
           \<and> n_cols sf' = n_cols sf - 1 \<and> n_rows sf' = n_rows sf
           \<and> get_option config' ''SBF'' ''Points'' = get_option config ''SBF'' ''Points''"
proof -
  from assms obtain d index new_sf n sec new3 new4 where
    d: "get_name_index_dict config = Inr d" "dict_get d name = Inr index"
    and del: "np_delete_col sf index = Inr new_sf"
    and n: "int_option config ''SBF'' ''SFCount'' = Inr n"
    and sec: "dict_get config ''SBF'' = Inr sec"
    and c1: "copy_SF 0 sec [1 .. index + 1 - 1]
               (AList.delete (SF_key n) (AList.update ''SFCount'' (str_int (n - 1)) sec)) = Inr new3"
    and c2: "copy_SF 1 sec [index + 1 .. n - 1] new3 = Inr new4"
    and res: "sf' = new_sf" "config' = AList.update ''SBF'' new4 config"
    unfolding remove_sf_def
    by (auto simp: Let_def split: sum.splits simp del: dict_get_Inr dict_get_Inl)
  have ne: "\<forall>i. ''SFCount'' \<noteq> SF_key i" "\<forall>i. ''Points'' \<noteq> SF_key i"
    using SF_key_not_name by metis+
  have m4: "map_of new4 ''SFCount'' = Some (str_int (n - 1))"
    "map_of new4 ''Points'' = map_of sec ''Points''"
    using copy_SF_keeps [OF c2 ne(1)] copy_SF_keeps [OF c1 ne(1)]
      copy_SF_keeps [OF c2 ne(2)] copy_SF_keeps [OF c1 ne(2)] ne
    by (simp_all add: update_conv' delete_conv')
  have cnt: "int_option config' ''SBF'' ''SFCount'' = Inr (n - 1)"
    by (simp add: res int_option_def get_option_def dict_get_def update_conv' m4 py_int_str_int)
  have pts: "get_option config' ''SBF'' ''Points'' = get_option config ''SBF'' ''Points''"
    using sec by (simp add: res get_option_def dict_get_def update_conv' m4)
  from del have shape: "n_cols new_sf = n_cols sf - 1" "n_rows new_sf = n_rows sf"
    by (auto simp: np_delete_col_def Let_def n_rows_def split: if_splits)
  from n cnt pts shape res show ?thesis by simp
qed

lemma rename_sf_counts:
  assumes "rename_sf name new_name config = Inr config'"
  shows "get_option config' ''SBF'' ''SFCount'' = get_option config ''SBF'' ''SFCount''
         \<and> get_option config' ''SBF'' ''Points'' = get_option config ''SBF'' ''Points''"
proof -
  from assms obtain index sec where
    sec: "map_of config ''SBF'' = Some sec"
    and c': "config' = AList.update ''SBF'' (AList.update (SF_key (index + 1)) new_name sec) config"
    unfolding rename_sf_def set_option_def
    by (auto simp: dict_get_def split: sum.splits option.splits)
  show ?thesis
    using sec SF_key_not_name [of "index + 1"]
    by (simp add: c' get_option_def dict_get_def update_conv')
qed

lemma write_header_default_counts:
  assumes "write_header Points SFCount0 config False False = Inr (SFCount, config')"
  shows "SFCount = SFCount0
         \<and> int_option config' ''SBF'' ''Points'' = Inr (int Points)
         \<and> int_option config' ''SBF'' ''SFCount'' = Inr (int SFCount0)"
proof (cases config)
  case None
  with assms show ?thesis
    by (auto simp: write_header_def int_option_def get_option_def dict_get_def py_int_str_int)
next
  case (Some c)
  with assms obtain sec where sec: "map_of c ''SBF'' = Some sec"
    by (auto simp: write_header_def set_options_def set_option_def dict_get_def
        split: option.splits sum.splits)
  with assms Some show ?thesis
    by (auto simp: write_header_def set_options_def set_option_def int_option_def
        get_option_def dict_get_def update_conv' py_int_str_int)
qed

lemma write_sbf_default_counts:
  assumes "write_sbf ev fp pc sf config False None = w" and "raised w = None"
  shows "\<exists>config' bytes. sbf_file w = Some config' \<and> sbf_data_file w = Some bytes
           \<and> int_option config' ''SBF'' ''Points'' = Inr (int (n_rows pc))
           \<and> int_option config' ''SBF'' ''SFCount''
               = Inr (int (case sf of Some m \<Rightarrow> n_cols m | None \<Rightarrow> 0))
           \<and> take 12 bytes
               = [42, 42] @ be_bytes 8 (n_rows pc)
                   @ be_bytes 2 (case sf of Some m \<Rightarrow> n_cols m | None \<Rightarrow> 0)"
proof -
  let ?S = "case sf of Some m \<Rightarrow> n_cols m | None \<Rightarrow> 0"
  from assms obtain SFCount config' shift a where
    h: "write_header (n_rows pc) ?S config False False = Inr (SFCount, config')"
    and st: "stored_array ev fp pc sf config' SFCount False = Inr (shift, a)"
    and w: "w = (let (bytes, e) = write_data (n_rows pc) SFCount shift a
                 in \<lparr>sbf_file = Some config', sbf_data_file = Some bytes, raised = e\<rparr>)"
    unfolding write_sbf_def by (auto simp: Let_def split: sum.splits prod.splits)
  from write_header_default_counts [OF h] have S: "SFCount = ?S"
    and counts: "int_option config' ''SBF'' ''Points'' = Inr (int (n_rows pc))"
      "int_option config' ''SBF'' ''SFCount'' = Inr (int ?S)"
    by simp_all
  obtain bytes e where wd: "write_data (n_rows pc) SFCount shift a = (bytes, e)"
    by (cases "write_data (n_rows pc) SFCount shift a")
  with w assms(2) have e: "e = None" and files: "sbf_file w = Some config'" "sbf_data_file w = Some bytes"
    by simp_all
  have lb: "length (be_bytes k v) = k" for k v
    by (simp add: be_bytes_def)
  from wd e have "take 12 bytes = [42, 42] @ be_bytes 8 (n_rows pc) @ be_bytes 2 SFCount"
    by (auto simp: write_data_def Let_def pack_Q_def pack_H_def lb split: sum.splits if_splits)
  with files counts S show ?thesis by simp
qed

end
